theory Spec2Isabelle
  imports Complex_Main "HOL-Library.Word" "HOL-Library.Log_Nat"
begin

section \<open>JavaScript values used by the examples\<close>

subsection \<open>Numbers\<close>

text \<open>
  A TypeScript \<open>number\<close> is an IEEE 754 binary64 value. A finite one is modelled by the
  rational it denotes, next to the two infinities and NaN. The two zeros are one value
  here: \<open>+\<close>, \<open>*\<close>, \<open><\<close>, \<open>===\<close> and \<open>Math.round\<close>, the only operations the
  examples apply to numbers, give results that differ at most in the sign of a zero
  when the sign of a zero argument changes, and \<open>===\<close> does not separate the zeros.
\<close>

datatype number = Finite rat | PosInfinity | NegInfinity | NaN

text \<open>The exponent of a positive rational: the \<open>e\<close> with \<open>2\<^sup>e \<le> a < 2\<^sup>e\<^sup>+\<^sup>1\<close>.\<close>

definition floor_log2 :: "rat \<Rightarrow> int" where
  "floor_log2 a = (if 1 \<le> a then bitlen \<lfloor>a\<rfloor> - 1 else - bitlen (\<lceil>1 / a\<rceil> - 1))"

text \<open>Rounding to the nearest integer, a tie going to the even neighbour.\<close>

definition round_half_even :: "rat \<Rightarrow> int" where
  "round_half_even x =
     (let f = \<lfloor>x\<rfloor>; d = x - of_int f
      in if d < 1 / 2 then f
         else if 1 / 2 < d then f + 1
         else if even f then f else f + 1)"

text \<open>
  The binary64 result of an exact value (roundTiesToEven, the only rounding mode of
  ECMAScript): 53 significant bits, the exponent of the last place never below
  \<open>-1074\<close> (subnormal numbers), and an infinity once the rounded magnitude reaches
  \<open>2\<^sup>1\<^sup>0\<^sup>2\<^sup>4\<close>.
\<close>

definition round_to_double :: "rat \<Rightarrow> number" where
  "round_to_double q =
     (if q = 0 then Finite 0
      else let e = max (floor_log2 \<bar>q\<bar>) (- 1022);
               ulp = 2 powi (e - 52);
               r = of_int (round_half_even (q / ulp)) * ulp
           in if 2 powi 1024 \<le> r then PosInfinity
              else if r \<le> - (2 powi 1024) then NegInfinity
              else Finite r)"

text \<open>A numeric literal of the source text denotes the double nearest to it.\<close>

definition num_lit :: "rat \<Rightarrow> number" where
  "num_lit q = round_to_double q"

text \<open>\<open>x + y\<close> on numbers.\<close>

fun num_add :: "number \<Rightarrow> number \<Rightarrow> number" where
  "num_add NaN y = NaN"
| "num_add x NaN = NaN"
| "num_add PosInfinity NegInfinity = NaN"
| "num_add NegInfinity PosInfinity = NaN"
| "num_add PosInfinity y = PosInfinity"
| "num_add x PosInfinity = PosInfinity"
| "num_add NegInfinity y = NegInfinity"
| "num_add x NegInfinity = NegInfinity"
| "num_add (Finite a) (Finite b) = round_to_double (a + b)"

fun num_sgn :: "number \<Rightarrow> rat" where
  "num_sgn (Finite a) = sgn a"
| "num_sgn PosInfinity = 1"
| "num_sgn NegInfinity = - 1"
| "num_sgn NaN = 0"

text \<open>\<open>x * y\<close> on numbers: an infinity times zero is NaN.\<close>

fun num_mul :: "number \<Rightarrow> number \<Rightarrow> number" where
  "num_mul (Finite a) (Finite b) = round_to_double (a * b)"
| "num_mul NaN y = NaN"
| "num_mul x NaN = NaN"
| "num_mul x y =
     (let s = num_sgn x * num_sgn y
      in if s = 0 then NaN else if 0 < s then PosInfinity else NegInfinity)"

text \<open>\<open>x < y\<close> on numbers: false as soon as one side is NaN.\<close>

fun num_lt :: "number \<Rightarrow> number \<Rightarrow> bool" where
  "num_lt NaN y = False"
| "num_lt x NaN = False"
| "num_lt (Finite a) (Finite b) = (a < b)"
| "num_lt x NegInfinity = False"
| "num_lt NegInfinity y = True"
| "num_lt PosInfinity y = False"
| "num_lt x PosInfinity = True"

text \<open>\<open>x >= y\<close> on numbers: false as soon as one side is NaN, otherwise not \<open>x < y\<close>.\<close>

definition num_ge :: "number \<Rightarrow> number \<Rightarrow> bool" where
  "num_ge x y = (x \<noteq> NaN \<and> y \<noteq> NaN \<and> \<not> num_lt x y)"

text \<open>\<open>x === y\<close> on numbers: NaN is not equal to itself.\<close>

definition strict_equal_number :: "number \<Rightarrow> number \<Rightarrow> bool" where
  "strict_equal_number x y = (x \<noteq> NaN \<and> y \<noteq> NaN \<and> x = y)"

text \<open>
  \<open>Math.round\<close>: the integer nearest to the argument, a tie going up; an infinity and
  NaN are returned as they are.
\<close>

fun Math_round :: "number \<Rightarrow> number" where
  "Math_round (Finite q) = Finite (of_int \<lfloor>q + 1 / 2\<rfloor>)"
| "Math_round x = x"

text \<open>
  The integers among the numbers. \<open>Number.isSafeInteger\<close> holds of the integers of
  magnitude at most \<open>2\<^sup>5\<^sup>3 - 1\<close>.
\<close>

definition number_of_int :: "int \<Rightarrow> number" where
  "number_of_int n = Finite (of_int n)"

definition isSafeInteger :: "int \<Rightarrow> bool" where
  "isSafeInteger n = (\<bar>n\<bar> \<le> 2 ^ 53 - 1)"

subsection \<open>Strings\<close>

text \<open>
  A string is a sequence of UTF-16 code units; \<open>length\<close> counts them, and it is a
  non-negative integer below \<open>2\<^sup>5\<^sup>3\<close>, so it is a number without rounding.
\<close>

type_synonym code_unit = "16 word"
type_synonym jsstring = "code_unit list"

definition string_length :: "jsstring \<Rightarrow> number" where
  "string_length s = Finite (of_nat (length s))"

text \<open>
  \<open>/[A-Z]/.test(s)\<close>: the pattern has no flags, so it matches exactly when some code
  unit of \<open>s\<close> lies between \<open>A\<close> (0x41) and \<open>Z\<close> (0x5A).
\<close>

definition regexp_A_Z_test :: "jsstring \<Rightarrow> bool" where
  "regexp_A_Z_test s = list_ex (\<lambda>c. 0x41 \<le> c \<and> c \<le> 0x5A) s"

subsection \<open>Either, from fp-ts\<close>

datatype ('e, 'a) Either = Left 'e | Right 'a

fun E_map :: "('a \<Rightarrow> 'b) \<Rightarrow> ('e, 'a) Either \<Rightarrow> ('e, 'b) Either" where
  "E_map f (Left e) = Left e"
| "E_map f (Right a) = Right (f a)"

subsection \<open>pipe and flow, from fp-ts\<close>

text \<open>
  \<open>pipe(a, ab)\<close> and \<open>pipe(a, ab, bc)\<close> apply the functions to \<open>a\<close> from left to
  right; \<open>flow(ab, bc)\<close> is the function that does so once it is given \<open>a\<close>.
\<close>

definition pipe_1 :: "'a \<Rightarrow> ('a \<Rightarrow> 'b) \<Rightarrow> 'b" where
  "pipe_1 a ab = ab a"

definition pipe_2 :: "'a \<Rightarrow> ('a \<Rightarrow> 'b) \<Rightarrow> ('b \<Rightarrow> 'c) \<Rightarrow> 'c" where
  "pipe_2 a ab bc = bc (ab a)"

definition flow_2 :: "('a \<Rightarrow> 'b) \<Rightarrow> ('b \<Rightarrow> 'c) \<Rightarrow> 'a \<Rightarrow> 'c" where
  "flow_2 ab bc = (\<lambda>a. bc (ab a))"

section \<open>password-errors.ts\<close>

text \<open>
  The two error classes. The message of each is determined by its tag and, for the
  first, by \<open>minLength\<close>, the only data the class stores.
\<close>

datatype PasswordValidationError =
    MinLengthValidationError number
  | CapitalLetterMissingValidationError

section \<open>password.ts\<close>

text \<open>
  The interface \<open>Password\<close>. The field \<open>_tag\<close> has the single value \<open>'Password'\<close>.
  \<open>isValidated\<close> is not part of the interface: it is the property that \<open>validate\<close>
  adds to its result, absent (\<open>None\<close>) on a password made by \<open>of\<close> or
  \<open>fromHashed\<close>. An object of the interface may carry further properties, the
  extension of the record; the spread \<open>{ ...password }\<close> copies them all. The
  constructor \<open>of\<close> is \<open>Password_of\<close> here, \<open>of\<close> being a keyword of the logic.
\<close>

datatype PasswordTag = PasswordTag

record Password =
  tag :: PasswordTag
  "value" :: jsstring
  isHashed :: bool
  isValidated :: "bool option"

definition Password_of :: "jsstring \<Rightarrow> Password" where
  "Password_of v = \<lparr>tag = PasswordTag, value = v, isHashed = False, isValidated = None\<rparr>"

definition fromHashed :: "jsstring \<Rightarrow> Password" where
  "fromHashed v = \<lparr>tag = PasswordTag, value = v, isHashed = True, isValidated = None\<rparr>"

text \<open>Both fields of the specification are optional.\<close>

record PasswordSpecification =
  minLength :: "number option"
  capitalLetterRequired :: "bool option"

text \<open>
  The parameter list of \<open>validate\<close>,
  \<open>{ minLength = 0, capitalLetterRequired = false }: PasswordSpecification = {}\<close>:
  an argument that is absent is \<open>{}\<close>, and a field that is absent takes its default.
\<close>

definition minLength_or_default :: "PasswordSpecification option \<Rightarrow> number" where
  "minLength_or_default spec =
     (case spec of
        None \<Rightarrow> Finite 0
      | Some s \<Rightarrow> (case minLength s of None \<Rightarrow> Finite 0 | Some m \<Rightarrow> m))"

definition capitalLetterRequired_or_default :: "PasswordSpecification option \<Rightarrow> bool" where
  "capitalLetterRequired_or_default spec =
     (case spec of
        None \<Rightarrow> False
      | Some s \<Rightarrow> (case capitalLetterRequired s of None \<Rightarrow> False | Some c \<Rightarrow> c))"

definition validate ::
  "PasswordSpecification option \<Rightarrow> 'a Password_scheme
     \<Rightarrow> (PasswordValidationError, 'a Password_scheme) Either" where
  "validate spec password =
     (if num_lt (string_length (value password)) (minLength_or_default spec)
      then Left (MinLengthValidationError (minLength_or_default spec))
      else if capitalLetterRequired_or_default spec \<and> \<not> regexp_A_Z_test (value password)
      then Left CapitalLetterMissingValidationError
      else Right (password\<lparr>isValidated := Some True\<rparr>))"

text \<open>
  A call of a function received as an argument either returns a value or does not (it
  throws): \<open>HashFn\<close> is typed to return an \<open>Either\<close>, and nothing in \<open>hash\<close> catches
  what it throws.
\<close>

datatype ('x, 'a) completion = Returned 'a | Thrown 'x

datatype Error = Error jsstring

type_synonym 'x HashFn = "jsstring \<Rightarrow> ('x, (Error, jsstring) Either) completion"

definition hash ::
  "'x HashFn \<Rightarrow> 'a Password_scheme \<Rightarrow> ('x, (Error, 'a Password_scheme) Either) completion" where
  "hash hashFn password =
     (case hashFn (value password) of
        Thrown x \<Rightarrow> Thrown x
      | Returned r \<Rightarrow>
          Returned (pipe_1 r (E_map (\<lambda>v. password\<lparr>value := v, isHashed := True\<rparr>))))"

text \<open>
  \<open>hash\<close> with the store of objects made explicit. A password is an object of the
  store and the argument of \<open>hash\<close> a reference to it (its index). The hash function
  is the caller's: it is handed the string \<open>password.value\<close>, and like every function
  of the language it may write to any object it can reach, so it takes the store and
  returns it. \<open>hash\<close> reads \<open>password.value\<close>, calls the hash function, and on
  \<open>Right\<close> evaluates the object literal \<open>{ ...password, value, isHashed: true }\<close>:
  a new object, spread from the password as it is after the call. No statement of
  \<open>hash\<close> assigns to an existing object.
\<close>

type_synonym 'a store = "'a Password_scheme list"

type_synonym ('x, 'a) HashFn_store =
  "jsstring \<Rightarrow> 'a store \<Rightarrow> ('x, (Error, jsstring) Either) completion \<times> 'a store"

definition hash_store ::
  "('x, 'a) HashFn_store \<Rightarrow> nat \<Rightarrow> 'a store
     \<Rightarrow> ('x, (Error, nat) Either) completion \<times> 'a store" where
  "hash_store hashFn r \<sigma> =
     (case hashFn (value (\<sigma> ! r)) \<sigma> of
        (Thrown x, \<sigma>') \<Rightarrow> (Thrown x, \<sigma>')
      | (Returned (Left e), \<sigma>') \<Rightarrow> (Returned (Left e), \<sigma>')
      | (Returned (Right v), \<sigma>') \<Rightarrow>
          (Returned (Right (length \<sigma>')), \<sigma>' @ [(\<sigma>' ! r)\<lparr>value := v, isHashed := True\<rparr>]))"

text \<open>
  \<open>validate\<close> with its arguments as they are at run time. The types are erased: an
  argument is \<open>undefined\<close>, \<open>null\<close> or a value of its type. Destructuring the
  specification takes \<open>{}\<close> for \<open>undefined\<close> and throws a \<open>TypeError\<close> on
  \<open>null\<close>; reading \<open>password.value\<close> throws a \<open>TypeError\<close> when the password
  is \<open>undefined\<close> or \<open>null\<close>. The specification is destructured when
  \<open>validate\<close> is applied to it, before the password is looked at.
\<close>

datatype 'a argument = Undefined | Null | Given 'a

datatype TypeError = TypeError

definition argument_of :: "'a option \<Rightarrow> 'a argument" where
  "argument_of a = (case a of None \<Rightarrow> Undefined | Some v \<Rightarrow> Given v)"

definition destructure_specification ::
  "PasswordSpecification argument \<Rightarrow> (TypeError, number \<times> bool) completion" where
  "destructure_specification spec =
     (case spec of
        Undefined \<Rightarrow> Returned (Finite 0, False)
      | Null \<Rightarrow> Thrown TypeError
      | Given s \<Rightarrow>
          Returned
            (case minLength s of None \<Rightarrow> Finite 0 | Some m \<Rightarrow> m,
             case capitalLetterRequired s of None \<Rightarrow> False | Some c \<Rightarrow> c))"

definition validate_call ::
  "PasswordSpecification argument \<Rightarrow> 'a Password_scheme argument
     \<Rightarrow> (TypeError, (PasswordValidationError, 'a Password_scheme) Either) completion" where
  "validate_call spec password =
     (case destructure_specification spec of
        Thrown x \<Rightarrow> Thrown x
      | Returned (minLen, capitalRequired) \<Rightarrow>
          (case password of
             Undefined \<Rightarrow> Thrown TypeError
           | Null \<Rightarrow> Thrown TypeError
           | Given p \<Rightarrow>
               Returned
                 (if num_lt (string_length (value p)) minLen
                  then Left (MinLengthValidationError minLen)
                  else if capitalRequired \<and> \<not> regexp_A_Z_test (value p)
                  then Left CapitalLetterMissingValidationError
                  else Right (p\<lparr>isValidated := Some True\<rparr>))))"

section \<open>pipe-and-flow.ts\<close>

record Bill =
  beforeTax :: number
  afterTax :: number

definition addTip :: "number \<Rightarrow> Bill" where
  "addTip total' =
     \<lparr>beforeTax = total',
      afterTax = num_add total' (Math_round (num_mul total' (num_lit (15 / 100))))\<rparr>"

text \<open>\<open>items.reduce((prev, current) => prev + current, 0)\<close>: a fold from the left.\<close>

definition sumLineItems :: "number list \<Rightarrow> number" where
  "sumLineItems items = foldl (\<lambda>prev current. num_add prev current) (Finite 0) items"

definition calculateBillTotal :: "number list \<Rightarrow> Bill" where
  "calculateBillTotal items = pipe_2 items sumLineItems addTip"

definition billCalulator :: "unit \<Rightarrow> number list \<Rightarrow> Bill" where
  "billCalulator u = flow_2 sumLineItems addTip"

section \<open>The semigroup example\<close>

text \<open>A \<open>Semigroup<A>\<close> is an object with the one member \<open>concat\<close>.\<close>

type_synonym 'a Semigroup = "'a \<Rightarrow> 'a \<Rightarrow> 'a"

definition semigroupProduct :: "number Semigroup" where
  "semigroupProduct x y = num_mul x y"

definition semigroupSum :: "number Semigroup" where
  "semigroupSum x y = num_add x y"

text \<open>The fields \<open>x\<close> and \<open>y\<close> of \<open>Point\<close> are \<open>point_x\<close> and \<open>point_y\<close> here.\<close>

record Point =
  point_x :: number
  point_y :: number

definition semigroupPoint :: "Point Semigroup" where
  "semigroupPoint p1 p2 =
     \<lparr>point_x = semigroupSum (point_x p1) (point_x p2),
      point_y = semigroupSum (point_y p1) (point_y p2)\<rparr>"

text \<open>
  Three integers whose sums, or products, stay safe integers however they are grouped,
  and the point with two integer coordinates.
\<close>

definition sum_safe :: "int \<Rightarrow> int \<Rightarrow> int \<Rightarrow> bool" where
  "sum_safe a b c =
     (isSafeInteger a \<and> isSafeInteger b \<and> isSafeInteger c
      \<and> isSafeInteger (a + b) \<and> isSafeInteger (b + c) \<and> isSafeInteger (a + b + c))"

definition product_safe :: "int \<Rightarrow> int \<Rightarrow> int \<Rightarrow> bool" where
  "product_safe a b c =
     (isSafeInteger a \<and> isSafeInteger b \<and> isSafeInteger c
      \<and> isSafeInteger (a * b) \<and> isSafeInteger (b * c) \<and> isSafeInteger (a * b * c))"

definition point_of_int :: "int \<Rightarrow> int \<Rightarrow> Point" where
  "point_of_int a b = \<lparr>point_x = number_of_int a, point_y = number_of_int b\<rparr>"

section \<open>eq.ts\<close>

text \<open>An \<open>Eq<T>\<close> is an object with the one member \<open>equals\<close>.\<close>

type_synonym 'a Eq = "'a \<Rightarrow> 'a \<Rightarrow> bool"

definition eqNumber :: "number Eq" where
  "eqNumber x y = strict_equal_number x y"

text \<open>
  An object has an identity: \<open>===\<close> on two objects compares the references, not the
  fields.
\<close>

datatype 'a object = Object (reference: nat) (properties: 'a)

definition strict_equal_object :: "'a object \<Rightarrow> 'a object \<Rightarrow> bool" where
  "strict_equal_object x y = (reference x = reference y)"

text \<open>
  \<open>contramap\<close> of fp-ts builds its result with \<open>fromEquals\<close>, whose \<open>equals\<close> is
  \<open>(x, y) => x === y || equals(x, y)\<close>. Here the type that \<open>contramap\<close> maps from is a
  type of objects, as \<open>User\<close> is.
\<close>

definition fromEquals :: "('a object \<Rightarrow> 'a object \<Rightarrow> bool) \<Rightarrow> 'a object Eq" where
  "fromEquals equals = (\<lambda>x y. strict_equal_object x y \<or> equals x y)"

definition contramap :: "('b object \<Rightarrow> 'a) \<Rightarrow> 'a Eq \<Rightarrow> 'b object Eq" where
  "contramap f fa = fromEquals (\<lambda>x y. fa (f x) (f y))"

text \<open>The field \<open>id\<close> of \<open>User\<close> is \<open>id'\<close> here.\<close>

record User =
  id' :: number
  name :: jsstring

definition eqUser :: "'a User_scheme object Eq" where
  "eqUser = contramap (\<lambda>u. id' (properties u)) eqNumber"

section \<open>Properties of the number model\<close>

subsection \<open>The exponent\<close>

lemma floor_log2_ge1:
  assumes "1 \<le> a"
  shows "2 powi floor_log2 a \<le> a" and "a < 2 powi (floor_log2 a + 1)"
proof -
  define k where "k = \<lfloor>a\<rfloor>"
  have k1: "1 \<le> k" using assms by (simp add: k_def le_floor_iff)
  then have kpos: "0 < k" by simp
  have bl: "1 \<le> bitlen k"
    using bitlen_eq_zero_iff [of k] bitlen_nonneg [of k] kpos by linarith
  have e: "floor_log2 a = bitlen k - 1"
    using assms by (simp add: floor_log2_def k_def)
  from bitlen_bounds [OF kpos]
  have lo: "2 ^ nat (bitlen k - 1) \<le> k" and hi: "k < 2 ^ nat (bitlen k)" by simp_all
  have "(2::rat) powi (bitlen k - 1) = of_int (2 ^ nat (bitlen k - 1))"
    using bl by (simp add: power_int_nonneg_exp)
  also have "\<dots> \<le> of_int k" using lo by (simp only: of_int_le_iff)
  also have "\<dots> \<le> a" by (simp add: k_def)
  finally show "2 powi floor_log2 a \<le> a" by (simp add: e)
  have "a < of_int (k + 1)" using floor_correct [of a] by (simp add: k_def)
  also have "\<dots> \<le> of_int (2 ^ nat (bitlen k))" using hi by (simp only: of_int_le_iff)
  also have "\<dots> = (2::rat) powi (bitlen k)"
    using bl by (simp add: power_int_nonneg_exp)
  finally show "a < 2 powi (floor_log2 a + 1)" by (simp add: e)
qed

lemma floor_log2_lt1:
  assumes "0 < a" "a < 1"
  shows "2 powi floor_log2 a \<le> a" and "a < 2 powi (floor_log2 a + 1)"
proof -
  define b where "b = 1 / a"
  define j where "j = \<lceil>b\<rceil> - 1"
  have b1: "1 < b" using assms by (simp add: b_def)
  have a_b: "a = 1 / b" by (simp add: b_def)
  have "1 < \<lceil>b\<rceil>" using b1 by (simp add: less_ceiling_iff)
  then have jpos: "0 < j" by (simp add: j_def)
  have bl: "1 \<le> bitlen j"
    using bitlen_eq_zero_iff [of j] bitlen_nonneg [of j] jpos by linarith
  have e: "floor_log2 a = - bitlen j"
    using assms by (simp add: floor_log2_def j_def b_def)
  from bitlen_bounds [OF jpos]
  have lo: "2 ^ nat (bitlen j - 1) \<le> j" and hi: "j < 2 ^ nat (bitlen j)" by simp_all
  have "b \<le> of_int (j + 1)" using ceiling_correct [of b] by (simp add: j_def)
  also have "\<dots> \<le> of_int (2 ^ nat (bitlen j))" using hi by (simp only: of_int_le_iff)
  also have "\<dots> = (2::rat) powi (bitlen j)"
    using bl by (simp add: power_int_nonneg_exp)
  finally have "b \<le> 2 powi bitlen j" .
  then have "1 / (2 powi bitlen j) \<le> 1 / b"
    using b1 by (intro frac_le) simp_all
  moreover have "(2::rat) powi floor_log2 a = 1 / (2 powi bitlen j)"
    by (simp add: e power_int_minus_divide)
  ultimately show "2 powi floor_log2 a \<le> a"
    by (simp add: b_def)
  have "(2::rat) powi (bitlen j - 1) = of_int (2 ^ nat (bitlen j - 1))"
    using bl by (simp add: power_int_nonneg_exp)
  also have "\<dots> \<le> of_int j" using lo by (simp only: of_int_le_iff)
  also have "\<dots> < b" using ceiling_correct [of b] by (simp add: j_def)
  finally have "2 powi (bitlen j - 1) < b" .
  then have "1 / b < 1 / (2 powi (bitlen j - 1))"
    by (intro frac_less2) simp_all
  moreover have "(2::rat) powi (floor_log2 a + 1) = 1 / (2 powi (bitlen j - 1))"
    using power_int_minus_divide [of "2::rat" "bitlen j - 1"] by (simp add: e)
  ultimately show "a < 2 powi (floor_log2 a + 1)"
    by (simp add: b_def)
qed

lemma floor_log2_bounds:
  assumes "0 < a"
  shows "2 powi floor_log2 a \<le> a \<and> a < 2 powi (floor_log2 a + 1)"
  using assms floor_log2_ge1 [of a] floor_log2_lt1 [of a] by (cases "1 \<le> a") auto

lemma floor_log2_unique:
  assumes "0 < a" "2 powi e \<le> a" "a < 2 powi (e + 1)"
  shows "floor_log2 a = e"
proof -
  let ?f = "floor_log2 a"
  from floor_log2_bounds [OF assms(1)]
  have lo: "2 powi ?f \<le> a" and hi: "a < 2 powi (?f + 1)" by simp_all
  have "(2::rat) powi e < 2 powi (?f + 1)" using assms(2) hi by simp
  then have "e < ?f + 1"
    using power_int_increasing [of "?f + 1" e "2::rat"] by (cases "e < ?f + 1") simp_all
  moreover have "(2::rat) powi ?f < 2 powi (e + 1)" using lo assms(3) by simp
  then have "?f < e + 1"
    using power_int_increasing [of "e + 1" ?f "2::rat"] by (cases "?f < e + 1") simp_all
  ultimately show ?thesis by simp
qed

subsection \<open>Rounding\<close>

lemma floor_rat_numeral_div [simp]:
  "\<lfloor>numeral a / numeral b :: rat\<rfloor> = numeral a div numeral b"
  using floor_divide_of_int_eq [of "numeral a" "numeral b", where ?'a = rat] by simp

lemma floor_rat_neg_numeral_div [simp]:
  "\<lfloor>- (numeral a / numeral b) :: rat\<rfloor> = - numeral a div numeral b"
  using floor_divide_of_int_eq [of "- numeral a" "numeral b", where ?'a = rat] by simp

lemma floor_rat_one_div_numeral [simp]:
  "\<lfloor>1 / numeral b :: rat\<rfloor> = 1 div numeral b"
  using floor_divide_of_int_eq [of 1 "numeral b", where ?'a = rat] by simp

lemma round_half_even_of_int [simp]: "round_half_even (of_int k) = k"
  by (simp add: round_half_even_def)

lemma round_to_double_exact:
  assumes q: "q \<noteq> 0"
    and m: "q / 2 powi (max (floor_log2 \<bar>q\<bar>) (- 1022) - 52) = of_int m"
    and b: "\<bar>q\<bar> < 2 powi 1024"
  shows "round_to_double q = Finite q"
proof -
  define u :: rat where "u = 2 powi (max (floor_log2 \<bar>q\<bar>) (- 1022) - 52)"
  have u0: "u \<noteq> 0" by (simp add: u_def)
  have "q / u = of_int m" using m by (simp add: u_def)
  then have "of_int (round_half_even (q / u)) * u = q"
    using u0 by (simp add: field_simps)
  moreover have "\<not> 2 powi 1024 \<le> q" "\<not> q \<le> - (2 powi 1024)"
    using b by (simp_all add: abs_less_iff)
  ultimately show ?thesis
    using q by (simp add: round_to_double_def Let_def u_def [symmetric])
qed

lemma round_to_double_of_int:
  assumes "\<bar>n\<bar> \<le> 2 ^ 53"
  shows "round_to_double (of_int n) = Finite (of_int n)"
proof (cases "n = 0")
  case True
  then show ?thesis by (simp add: round_to_double_def)
next
  case False
  define a :: rat where "a = \<bar>of_int n\<bar>"
  define e where "e = floor_log2 a"
  have a1: "1 \<le> a" using False by (simp add: a_def flip: of_int_abs)
  have a53: "a \<le> 2 ^ 53"
  proof -
    have "a = of_int \<bar>n\<bar>" by (simp add: a_def)
    also have "\<dots> \<le> of_int (2 ^ 53)" using assms by (simp only: of_int_le_iff)
    finally show ?thesis by simp
  qed
  from floor_log2_bounds [of a] a1
  have lo: "2 powi e \<le> a" and hi: "a < 2 powi (e + 1)" by (simp_all add: e_def)
  have e0: "0 \<le> e"
    using power_int_increasing [of "e + 1" 0 "2::rat"] hi a1 by (cases "0 \<le> e") simp_all
  have e53: "e \<le> 53"
    using power_int_increasing [of 54 e "2::rat"] lo a53 by (cases "e \<le> 53") simp_all
  have mx: "max (floor_log2 \<bar>rat_of_int n\<bar>) (- 1022) = e"
    using e0 by (simp add: e_def a_def)
  have "\<exists>m. rat_of_int n / 2 powi (e - 52) = of_int m"
  proof (cases "e = 53")
    case True
    then have "2 ^ 53 \<le> a" using lo by simp
    then have "a = 2 ^ 53" using a53 by simp
    then have "rat_of_int n = 2 ^ 53 \<or> rat_of_int n = - (2 ^ 53)"
      by (simp add: a_def abs_if split: if_splits)
    then show ?thesis
    proof
      assume "rat_of_int n = 2 ^ 53"
      then have "rat_of_int n / 2 powi (e - 52) = of_int (2 ^ 52)" using True by simp
      then show ?thesis by blast
    next
      assume "rat_of_int n = - (2 ^ 53)"
      then have "rat_of_int n / 2 powi (e - 52) = of_int (- (2 ^ 52))" using True by simp
      then show ?thesis by blast
    qed
  next
    case False
    then have le: "e \<le> 52" using e53 by simp
    have "(2::rat) powi (e - 52) = 1 / 2 powi (52 - e)"
      using power_int_minus_divide [of "2::rat" "52 - e"] by simp
    also have "\<dots> = 1 / 2 ^ nat (52 - e)"
      using le by (simp add: power_int_nonneg_exp)
    finally have "rat_of_int n / 2 powi (e - 52) = of_int (n * 2 ^ nat (52 - e))"
      by simp
    then show ?thesis by blast
  qed
  then obtain m where m: "rat_of_int n / 2 powi (e - 52) = of_int m" by blast
  have "\<bar>rat_of_int n\<bar> < 2 powi 1024"
    using a53 by (simp add: a_def)
  with m False show ?thesis
    by (intro round_to_double_exact) (simp_all add: mx)
qed

subsection \<open>Integers that need no rounding\<close>

lemma num_add_int:
  assumes "\<bar>a + b\<bar> \<le> 2 ^ 53"
  shows "num_add (Finite (of_int a)) (Finite (of_int b)) = Finite (of_int (a + b))"
  using round_to_double_of_int [OF assms] by simp

lemma num_mul_int:
  assumes "\<bar>a * b\<bar> \<le> 2 ^ 53"
  shows "num_mul (Finite (of_int a)) (Finite (of_int b)) = Finite (of_int (a * b))"
  using round_to_double_of_int [OF assms] by simp

section \<open>Properties of password.ts\<close>

lemma regexp_A_Z_test_iff:
  "regexp_A_Z_test s \<longleftrightarrow> (\<exists>c \<in> set s. 0x41 \<le> c \<and> c \<le> 0x5A)"
  by (simp add: regexp_A_Z_test_def list_ex_iff)

text \<open>
  Claim C1. A password whose length is strictly below the configured \<open>minLength\<close> is
  refused with the min-length error, which carries that \<open>minLength\<close>. Nothing is
  assumed about the letters of the password or about \<open>capitalLetterRequired\<close>: the
  length is tested first, and the first rule violated decides.
\<close>

theorem validate_min_length:
  assumes "num_lt (string_length (value password)) (minLength_or_default spec)"
  shows "validate spec password = Left (MinLengthValidationError (minLength_or_default spec))"
  using assms by (simp add: validate_def)

text \<open>
  The password \<open>'23456'\<close> under \<open>{ minLength: 8, capitalLetterRequired: true }\<close>
  violates both rules; the min-length error is returned.
\<close>

theorem validate_min_length_witness:
  "num_lt (string_length (value (Password_of [0x32, 0x33, 0x34, 0x35, 0x36])))
      (minLength_or_default
         (Some \<lparr>minLength = Some (Finite 8), capitalLetterRequired = Some True\<rparr>))
   \<and> \<not> regexp_A_Z_test (value (Password_of [0x32, 0x33, 0x34, 0x35, 0x36]))
   \<and> validate (Some \<lparr>minLength = Some (Finite 8), capitalLetterRequired = Some True\<rparr>)
         (Password_of [0x32, 0x33, 0x34, 0x35, 0x36])
       = Left (MinLengthValidationError (Finite 8))"
  using validate_min_length
    [of "Password_of [0x32, 0x33, 0x34, 0x35, 0x36]"
        "Some \<lparr>minLength = Some (Finite 8), capitalLetterRequired = Some True\<rparr>"]
  by (simp add: string_length_def Password_of_def minLength_or_default_def regexp_A_Z_test_def)

text \<open>
  Claim C2. A password that satisfies both constraints (its length is at least the
  configured \<open>minLength\<close>, and it has a letter in A-Z whenever a capital letter is
  required) is accepted: the result is \<open>Right\<close> of the password with the tag
  \<open>isValidated\<close> added, and \<open>value\<close> and \<open>isHashed\<close> are those of the argument.
\<close>

theorem validate_accepts:
  assumes "num_ge (string_length (value password)) (minLength_or_default spec)"
    and "capitalLetterRequired_or_default spec \<Longrightarrow> regexp_A_Z_test (value password)"
  shows "validate spec password = Right (password\<lparr>isValidated := Some True\<rparr>)
         \<and> value (password\<lparr>isValidated := Some True\<rparr>) = value password
         \<and> isHashed (password\<lparr>isValidated := Some True\<rparr>) = isHashed password"
  using assms by (auto simp add: validate_def num_ge_def)

text \<open>The password \<open>'Password'\<close> under \<open>{ minLength: 8, capitalLetterRequired: true }\<close>.\<close>

theorem validate_accepts_witness:
  "num_ge (string_length (value (Password_of [0x50, 0x61, 0x73, 0x73, 0x77, 0x6F, 0x72, 0x64])))
      (minLength_or_default
         (Some \<lparr>minLength = Some (Finite 8), capitalLetterRequired = Some True\<rparr>))
   \<and> capitalLetterRequired_or_default
         (Some \<lparr>minLength = Some (Finite 8), capitalLetterRequired = Some True\<rparr>)
   \<and> regexp_A_Z_test (value (Password_of [0x50, 0x61, 0x73, 0x73, 0x77, 0x6F, 0x72, 0x64]))
   \<and> validate (Some \<lparr>minLength = Some (Finite 8), capitalLetterRequired = Some True\<rparr>)
         (Password_of [0x50, 0x61, 0x73, 0x73, 0x77, 0x6F, 0x72, 0x64])
       = Right \<lparr>tag = PasswordTag, value = [0x50, 0x61, 0x73, 0x73, 0x77, 0x6F, 0x72, 0x64],
                isHashed = False, isValidated = Some True\<rparr>"
  using validate_accepts
    [of "Password_of [0x50, 0x61, 0x73, 0x73, 0x77, 0x6F, 0x72, 0x64]"
        "Some \<lparr>minLength = Some (Finite 8), capitalLetterRequired = Some True\<rparr>"]
  by (simp add: string_length_def Password_of_def num_ge_def minLength_or_default_def
      capitalLetterRequired_or_default_def regexp_A_Z_test_def)

text \<open>
  Claim C3. A password that is long enough and has no letter in A-Z is refused with the
  capital-letter error when a capital letter is required.
\<close>

theorem validate_capital_letter_missing:
  assumes "num_ge (string_length (value password)) (minLength_or_default spec)"
    and "capitalLetterRequired_or_default spec"
    and "\<not> regexp_A_Z_test (value password)"
  shows "validate spec password = Left CapitalLetterMissingValidationError"
  using assms by (simp add: validate_def num_ge_def)

text \<open>The password \<open>'password'\<close> under \<open>{ minLength: 8, capitalLetterRequired: true }\<close>.\<close>

theorem validate_capital_letter_missing_witness:
  "num_ge (string_length (value (Password_of [0x70, 0x61, 0x73, 0x73, 0x77, 0x6F, 0x72, 0x64])))
      (minLength_or_default
         (Some \<lparr>minLength = Some (Finite 8), capitalLetterRequired = Some True\<rparr>))
   \<and> capitalLetterRequired_or_default
         (Some \<lparr>minLength = Some (Finite 8), capitalLetterRequired = Some True\<rparr>)
   \<and> \<not> regexp_A_Z_test (value (Password_of [0x70, 0x61, 0x73, 0x73, 0x77, 0x6F, 0x72, 0x64]))
   \<and> validate (Some \<lparr>minLength = Some (Finite 8), capitalLetterRequired = Some True\<rparr>)
         (Password_of [0x70, 0x61, 0x73, 0x73, 0x77, 0x6F, 0x72, 0x64])
       = Left CapitalLetterMissingValidationError"
  using validate_capital_letter_missing
    [of "Password_of [0x70, 0x61, 0x73, 0x73, 0x77, 0x6F, 0x72, 0x64]"
        "Some \<lparr>minLength = Some (Finite 8), capitalLetterRequired = Some True\<rparr>"]
  by (simp add: string_length_def Password_of_def num_ge_def minLength_or_default_def
      capitalLetterRequired_or_default_def regexp_A_Z_test_def)

text \<open>
  Claim C6. The specification is optional, with the defaults \<open>minLength = 0\<close> and
  \<open>capitalLetterRequired = false\<close>; so \<open>validate\<close> without a specification, or with
  the empty one, accepts every password.
\<close>

theorem validate_default:
  "minLength_or_default None = Finite 0
   \<and> capitalLetterRequired_or_default None = False
   \<and> minLength_or_default (Some \<lparr>minLength = None, capitalLetterRequired = None\<rparr>) = Finite 0
   \<and> capitalLetterRequired_or_default (Some \<lparr>minLength = None, capitalLetterRequired = None\<rparr>)
       = False
   \<and> validate None password = Right (password\<lparr>isValidated := Some True\<rparr>)
   \<and> validate (Some \<lparr>minLength = None, capitalLetterRequired = None\<rparr>) password
       = Right (password\<lparr>isValidated := Some True\<rparr>)"
  by (simp add: validate_def minLength_or_default_def capitalLetterRequired_or_default_def
      string_length_def)

text \<open>The empty password, the shortest there is.\<close>

theorem validate_default_witness:
  "validate None (Password_of [])
     = Right \<lparr>tag = PasswordTag, value = [], isHashed = False, isValidated = Some True\<rparr>
   \<and> validate (Some \<lparr>minLength = None, capitalLetterRequired = None\<rparr>) (Password_of [])
     = Right \<lparr>tag = PasswordTag, value = [], isHashed = False, isValidated = Some True\<rparr>"
  using validate_default [of "Password_of []"] by (simp add: Password_of_def)

text \<open>
  Claim C4. When the hash function returns \<open>Right h\<close> on the value of the password,
  \<open>hash\<close> returns \<open>Right\<close> of a password whose \<open>value\<close> is \<open>h\<close> and whose
  \<open>isHashed\<close> is true.
\<close>

theorem hash_success:
  assumes "hashFn (value password) = Returned (Right h)"
  shows "hash hashFn password = Returned (Right (password\<lparr>value := h, isHashed := True\<rparr>))
         \<and> value (password\<lparr>value := h, isHashed := True\<rparr>) = h
         \<and> isHashed (password\<lparr>value := h, isHashed := True\<rparr>) = True"
  using assms by (simp add: hash_def pipe_1_def)

text \<open>The hash function of task-and-either.ts, which puts the value between two \<open>HASH\<close>.\<close>

theorem hash_success_witness:
  "(\<lambda>v. Returned (Right ([0x48, 0x41, 0x53, 0x48] @ v @ [0x48, 0x41, 0x53, 0x48])))
      (value (Password_of [0x70, 0x77]))
     = (Returned (Right [0x48, 0x41, 0x53, 0x48, 0x70, 0x77, 0x48, 0x41, 0x53, 0x48])
        :: (unit, (Error, jsstring) Either) completion)
   \<and> hash (\<lambda>v. Returned (Right ([0x48, 0x41, 0x53, 0x48] @ v @ [0x48, 0x41, 0x53, 0x48]))
              :: (unit, (Error, jsstring) Either) completion)
         (Password_of [0x70, 0x77])
     = Returned (Right \<lparr>tag = PasswordTag,
                         value = [0x48, 0x41, 0x53, 0x48, 0x70, 0x77, 0x48, 0x41, 0x53, 0x48],
                         isHashed = True, isValidated = None\<rparr>)"
  using hash_success
    [of "\<lambda>v. Returned (Right ([0x48, 0x41, 0x53, 0x48] @ v @ [0x48, 0x41, 0x53, 0x48]))
           :: (unit, (Error, jsstring) Either) completion"
        "Password_of [0x70, 0x77]"
        "[0x48, 0x41, 0x53, 0x48, 0x70, 0x77, 0x48, 0x41, 0x53, 0x48]"]
  by (simp add: Password_of_def)

text \<open>
  With a hash function that writes nothing, \<open>hash\<close> on the store is \<open>hash\<close> on
  the value of the object, and a successful run appends the new object.
\<close>

lemma hash_store_pure:
  "hash_store (\<lambda>v s. (hashFn v, s)) r \<sigma>
   = (case hash hashFn (\<sigma> ! r) of
        Thrown x \<Rightarrow> (Thrown x, \<sigma>)
      | Returned (Left e) \<Rightarrow> (Returned (Left e), \<sigma>)
      | Returned (Right p) \<Rightarrow> (Returned (Right (length \<sigma>)), \<sigma> @ [p]))"
  by (simp add: hash_store_def hash_def pipe_1_def split: completion.splits Either.splits)

lemma hash_store_success:
  assumes "hashFn (value (\<sigma> ! r)) \<sigma> = (Returned (Right h), \<sigma>')"
  shows "hash_store hashFn r \<sigma>
         = (Returned (Right (length \<sigma>')), \<sigma>' @ [(\<sigma>' ! r)\<lparr>value := h, isHashed := True\<rparr>])"
  using assms by (simp add: hash_store_def)

lemma hash_store_thrown:
  assumes "hashFn (value (\<sigma> ! r)) \<sigma> = (Thrown x, \<sigma>')"
  shows "hash_store hashFn r \<sigma> = (Thrown x, \<sigma>')"
  using assms by (simp add: hash_store_def)

text \<open>
  Claim C5, as stated: whenever the hash function returns \<open>Left e\<close>, \<open>hash\<close>
  returns \<open>Left e\<close> and the password is unchanged. The second half fails for a hash
  function that writes to the password before it fails, as
  \<open>() => { p.value = 'changed'; return E.left(new Error('no')) }\<close> does: \<open>hash\<close>
  returns the \<open>Left\<close>, and the password that held \<open>'p'\<close> holds \<open>'changed'\<close>.
\<close>

theorem hash_failure_counterexample:
  "fst ((\<lambda>v s. (Returned (Left (Error [0x6E, 0x6F])),
                 s[0 := (s ! 0)\<lparr>value := [0x63, 0x68, 0x61, 0x6E, 0x67, 0x65, 0x64]\<rparr>]))
          (value ([Password_of [0x70]] ! 0)) [Password_of [0x70]])
     = (Returned (Left (Error [0x6E, 0x6F])) :: (unit, (Error, jsstring) Either) completion)
   \<and> fst (hash_store
          (\<lambda>v s. (Returned (Left (Error [0x6E, 0x6F]))
                    :: (unit, (Error, jsstring) Either) completion,
                  s[0 := (s ! 0)\<lparr>value := [0x63, 0x68, 0x61, 0x6E, 0x67, 0x65, 0x64]\<rparr>]))
          0 [Password_of [0x70]])
     = Returned (Left (Error [0x6E, 0x6F]))
   \<and> value ([Password_of [0x70]] ! 0) = [0x70]
   \<and> value (snd (hash_store
          (\<lambda>v s. (Returned (Left (Error [0x6E, 0x6F]))
                    :: (unit, (Error, jsstring) Either) completion,
                  s[0 := (s ! 0)\<lparr>value := [0x63, 0x68, 0x61, 0x6E, 0x67, 0x65, 0x64]\<rparr>]))
          0 [Password_of [0x70]]) ! 0)
     = [0x63, 0x68, 0x61, 0x6E, 0x67, 0x65, 0x64]"
  by (simp add: hash_store_def Password_of_def)

text \<open>
  Claim C5, amended: whenever the hash function returns \<open>Left e\<close>, \<open>hash\<close> returns
  exactly \<open>Left e\<close> and writes nothing itself: the store after the call is the store
  as the hash function left it. So the password read after the call is the password
  read before whenever the hash function has not written to it.
\<close>

theorem hash_failure_store:
  assumes "r < length \<sigma>"
    and "hashFn (value (\<sigma> ! r)) \<sigma> = (Returned (Left e), \<sigma>')"
  shows "hash_store hashFn r \<sigma> = (Returned (Left e), \<sigma>')
         \<and> (\<sigma>' ! r = \<sigma> ! r \<longrightarrow> snd (hash_store hashFn r \<sigma>) ! r = \<sigma> ! r)"
  using assms by (simp add: hash_store_def)

text \<open>
  A hash function that refuses the empty string and writes nothing, on a store that
  holds the empty password.
\<close>

theorem hash_failure_store_witness:
  "(0::nat) < length [Password_of []]
   \<and> (\<lambda>v s. (if v = [] then Returned (Left (Error [0x6E, 0x6F])) else Returned (Right v), s))
      (value ([Password_of []] ! 0)) [Password_of []]
     = (Returned (Left (Error [0x6E, 0x6F])) :: (unit, (Error, jsstring) Either) completion,
        [Password_of []])
   \<and> hash_store
         (\<lambda>v s. (if v = [] then Returned (Left (Error [0x6E, 0x6F])) else Returned (Right v)
                   :: (unit, (Error, jsstring) Either) completion, s))
         0 [Password_of []]
       = (Returned (Left (Error [0x6E, 0x6F])), [Password_of []])
   \<and> snd (hash_store
         (\<lambda>v s. (if v = [] then Returned (Left (Error [0x6E, 0x6F])) else Returned (Right v)
                   :: (unit, (Error, jsstring) Either) completion, s))
         0 [Password_of []]) ! 0
       = [Password_of []] ! 0"
  using hash_failure_store
    [of 0 "[Password_of []]"
        "\<lambda>v s. (if v = [] then Returned (Left (Error [0x6E, 0x6F])) else Returned (Right v)
                  :: (unit, (Error, jsstring) Either) completion, s)"
        "Error [0x6E, 0x6F]" "[Password_of []]"]
  by (simp add: Password_of_def)

text \<open>
  The exceptions of \<open>validate\<close>: a \<open>null\<close> specification, and a password that is
  \<open>undefined\<close> or \<open>null\<close>. None of them is a specification or a password.
\<close>

lemma validate_call_null_specification: "validate_call Null password = Thrown TypeError"
  by (simp add: validate_call_def destructure_specification_def)

lemma validate_call_no_password:
  "validate_call (argument_of spec) Undefined = Thrown TypeError"
  "validate_call (argument_of spec) Null = Thrown TypeError"
  by (simp_all add: validate_call_def destructure_specification_def argument_of_def
      split: option.splits)

text \<open>On a specification and a password, the call returns what \<open>validate\<close> computes.\<close>

lemma validate_call_validate:
  "validate_call (argument_of spec) (Given password) = Returned (validate spec password)"
  by (simp add: validate_call_def destructure_specification_def argument_of_def validate_def
      minLength_or_default_def capitalLetterRequired_or_default_def split: option.splits)

text \<open>
  Claim C7. \<open>validate\<close> and \<open>hash\<close> do not throw. For every specification
  (absent or given) and every password, the call of \<open>validate\<close> returns; what it
  returns is \<open>Left\<close> of the min-length error exactly when the password is too short,
  \<open>Left\<close> of the capital-letter error exactly when it is long enough and lacks a
  required capital letter, and \<open>Right\<close> exactly when no rule is violated. \<open>hash\<close>,
  given a hash function that returns a result on the value of the password, returns
  too: the error of the hash function as \<open>Left\<close>, or the hashed password as
  \<open>Right\<close>.
\<close>

theorem validate_hash_never_throw:
  "(\<exists>result. validate_call (argument_of spec) (Given password) = Returned result
      \<and> ((\<exists>m. result = Left (MinLengthValidationError m))
           \<longleftrightarrow> num_lt (string_length (value password)) (minLength_or_default spec))
      \<and> (result = Left CapitalLetterMissingValidationError
           \<longleftrightarrow> \<not> num_lt (string_length (value password)) (minLength_or_default spec)
               \<and> capitalLetterRequired_or_default spec
               \<and> \<not> regexp_A_Z_test (value password))
      \<and> ((\<exists>p. result = Right p)
           \<longleftrightarrow> \<not> num_lt (string_length (value password)) (minLength_or_default spec)
               \<and> (capitalLetterRequired_or_default spec \<longrightarrow> regexp_A_Z_test (value password))))
   \<and> (hashFn (value password) = Returned r \<longrightarrow>
        hash hashFn password
          = Returned (E_map (\<lambda>v. password\<lparr>value := v, isHashed := True\<rparr>) r)
        \<and> (\<forall>e. r = Left e \<longrightarrow> hash hashFn password = Returned (Left e)))"
proof -
  have "validate_call (argument_of spec) (Given password) = Returned (validate spec password)"
    by (rule validate_call_validate)
  moreover have "(\<exists>m. validate spec password = Left (MinLengthValidationError m))
      \<longleftrightarrow> num_lt (string_length (value password)) (minLength_or_default spec)"
    by (simp add: validate_def)
  moreover have "validate spec password = Left CapitalLetterMissingValidationError
      \<longleftrightarrow> \<not> num_lt (string_length (value password)) (minLength_or_default spec)
          \<and> capitalLetterRequired_or_default spec
          \<and> \<not> regexp_A_Z_test (value password)"
    by (simp add: validate_def)
  moreover have "(\<exists>p. validate spec password = Right p)
      \<longleftrightarrow> \<not> num_lt (string_length (value password)) (minLength_or_default spec)
          \<and> (capitalLetterRequired_or_default spec \<longrightarrow> regexp_A_Z_test (value password))"
    by (auto simp add: validate_def)
  moreover have "hashFn (value password) = Returned r \<longrightarrow>
        hash hashFn password
          = Returned (E_map (\<lambda>v. password\<lparr>value := v, isHashed := True\<rparr>) r)
        \<and> (\<forall>e. r = Left e \<longrightarrow> hash hashFn password = Returned (Left e))"
    by (auto simp add: hash_def pipe_1_def)
  ultimately show ?thesis by blast
qed

text \<open>The pipeline of task-and-either.ts on \<open>'23456'\<close>, and a hash function that fails.\<close>

theorem validate_hash_never_throw_witness:
  "validate_call
      (argument_of (Some \<lparr>minLength = Some (Finite 8), capitalLetterRequired = Some True\<rparr>))
      (Given (Password_of [0x32, 0x33, 0x34, 0x35, 0x36]))
     = Returned (Left (MinLengthValidationError (Finite 8)))
   \<and> num_lt (string_length (value (Password_of [0x32, 0x33, 0x34, 0x35, 0x36])))
        (minLength_or_default
           (Some \<lparr>minLength = Some (Finite 8), capitalLetterRequired = Some True\<rparr>))
   \<and> (\<lambda>v. Returned (Left (Error [0x6E, 0x6F]))) (value (Password_of [0x32, 0x33, 0x34, 0x35, 0x36]))
     = (Returned (Left (Error [0x6E, 0x6F])) :: (unit, (Error, jsstring) Either) completion)
   \<and> hash (\<lambda>v. Returned (Left (Error [0x6E, 0x6F])) :: (unit, (Error, jsstring) Either) completion)
        (Password_of [0x32, 0x33, 0x34, 0x35, 0x36])
     = Returned (Left (Error [0x6E, 0x6F]))"
proof -
  have called: "validate_call
      (argument_of (Some \<lparr>minLength = Some (Finite 8), capitalLetterRequired = Some True\<rparr>))
      (Given (Password_of [0x32, 0x33, 0x34, 0x35, 0x36]))
     = Returned (Left (MinLengthValidationError (Finite 8)))"
    by (simp add: validate_call_def destructure_specification_def argument_of_def
        string_length_def Password_of_def)
  have short: "num_lt (string_length (value (Password_of [0x32, 0x33, 0x34, 0x35, 0x36])))
        (minLength_or_default
           (Some \<lparr>minLength = Some (Finite 8), capitalLetterRequired = Some True\<rparr>))"
    by (simp add: string_length_def Password_of_def minLength_or_default_def)
  have "hash (\<lambda>v. Returned (Left (Error [0x6E, 0x6F]))
                :: (unit, (Error, jsstring) Either) completion)
           (Password_of [0x32, 0x33, 0x34, 0x35, 0x36])
        = Returned (Left (Error [0x6E, 0x6F]))"
    using validate_hash_never_throw
      [of "Some \<lparr>minLength = Some (Finite 8), capitalLetterRequired = Some True\<rparr>"
          "Password_of [0x32, 0x33, 0x34, 0x35, 0x36]"
          "\<lambda>v. Returned (Left (Error [0x6E, 0x6F])) :: (unit, (Error, jsstring) Either) completion"
          "Left (Error [0x6E, 0x6F])"]
    by blast
  with called short show ?thesis by simp
qed

section \<open>Properties of pipe-and-flow.ts\<close>

lemma calculateBillTotal_addTip: "calculateBillTotal items = addTip (sumLineItems items)"
  by (simp add: calculateBillTotal_def pipe_2_def)

lemma addTip_0: "addTip (Finite 0) = \<lparr>beforeTax = Finite 0, afterTax = Finite 0\<rparr>"
proof -
  have m: "num_mul (Finite 0) (num_lit (15 / 100)) = Finite 0"
  proof -
    have "floor_log2 \<bar>15 / 100\<bar> = - 3"
      by (rule floor_log2_unique) simp_all
    then show ?thesis
      by (simp add: num_lit_def round_to_double_def round_half_even_def Let_def)
  qed
  have r: "Math_round (Finite 0) = Finite 0" by simp
  have a: "num_add (Finite 0) (Finite 0) = Finite 0"
    by (simp add: round_to_double_def)
  show ?thesis by (simp only: addTip_def m r a)
qed

text \<open>
  \<open>30 * 0.15\<close> is \<open>4.5\<close> once rounded to a double, although \<open>0.15\<close> is not
  exactly fifteen hundredths; \<open>Math.round\<close> takes it to \<open>5\<close>.
\<close>

lemma addTip_30: "addTip (Finite 30) = \<lparr>beforeTax = Finite 30, afterTax = Finite 35\<rparr>"
proof -
  have m: "num_mul (Finite 30) (num_lit (15 / 100)) = Finite (9 / 2)"
  proof -
    have "floor_log2 \<bar>15 / 100\<bar> = - 3"
      by (rule floor_log2_unique) simp_all
    moreover have "floor_log2 \<bar>30 * (5404319552844595 / 2 ^ 55)\<bar> = 2"
      by (rule floor_log2_unique) simp_all
    ultimately show ?thesis
      by (simp add: num_lit_def round_to_double_def round_half_even_def Let_def)
  qed
  have r: "Math_round (Finite (9 / 2)) = Finite 5" by simp
  have a: "num_add (Finite 30) (Finite 5) = Finite 35"
    using num_add_int [of 30 5] by simp
  show ?thesis by (simp only: addTip_def m r a)
qed

lemma sumLineItems_10_20: "sumLineItems [Finite 10, Finite 20] = Finite 30"
  using num_add_int [of 0 10] num_add_int [of 10 20] by (simp add: sumLineItems_def)

text \<open>
  Claim C9. \<open>calculateBillTotal(items)\<close> and \<open>billCalulator()(items)\<close> are the same
  bill. Its \<open>beforeTax\<close> is the sum of the items, added from the left starting at \<open>0\<close>
  (so \<open>0\<close> for no items), and its \<open>afterTax\<close> is \<open>beforeTax\<close> plus
  \<open>Math.round(beforeTax * 0.15)\<close>.
\<close>

theorem calculateBillTotal_billCalulator:
  "calculateBillTotal items = billCalulator () items
   \<and> beforeTax (calculateBillTotal items) = sumLineItems items
   \<and> afterTax (calculateBillTotal items)
       = num_add (sumLineItems items)
           (Math_round (num_mul (sumLineItems items) (num_lit (15 / 100))))
   \<and> sumLineItems [] = Finite 0
   \<and> sumLineItems (items @ [n]) = num_add (sumLineItems items) n"
  by (simp add: calculateBillTotal_def billCalulator_def pipe_2_def flow_2_def addTip_def
      sumLineItems_def)

text \<open>The items \<open>[10, 20]\<close> give the bill \<open>{ beforeTax: 30, afterTax: 35 }\<close>.\<close>

theorem calculateBillTotal_billCalulator_witness:
  "calculateBillTotal [Finite 10, Finite 20] = billCalulator () [Finite 10, Finite 20]
   \<and> billCalulator () [Finite 10, Finite 20] = \<lparr>beforeTax = Finite 30, afterTax = Finite 35\<rparr>
   \<and> calculateBillTotal [] = billCalulator () []
   \<and> billCalulator () [] = \<lparr>beforeTax = Finite 0, afterTax = Finite 0\<rparr>"
proof -
  have "calculateBillTotal [Finite 10, Finite 20]
        = \<lparr>beforeTax = Finite 30, afterTax = Finite 35\<rparr>"
    by (simp only: calculateBillTotal_addTip sumLineItems_10_20 addTip_30)
  moreover have "calculateBillTotal [] = \<lparr>beforeTax = Finite 0, afterTax = Finite 0\<rparr>"
    by (simp only: calculateBillTotal_addTip sumLineItems_def foldl.simps addTip_0)
  moreover have "calculateBillTotal [Finite 10, Finite 20]
                 = billCalulator () [Finite 10, Finite 20]"
    using calculateBillTotal_billCalulator [of "[Finite 10, Finite 20]" "Finite 0"]
    by (rule conjunct1)
  moreover have "calculateBillTotal [] = billCalulator () []"
    using calculateBillTotal_billCalulator [of "[]" "Finite 0"] by (rule conjunct1)
  ultimately show ?thesis by simp
qed

section \<open>Properties of the semigroup example\<close>

lemma semigroupSum_int:
  "isSafeInteger (a + b) \<Longrightarrow>
   semigroupSum (number_of_int a) (number_of_int b) = number_of_int (a + b)"
  using num_add_int [of a b] by (simp add: semigroupSum_def number_of_int_def isSafeInteger_def)

lemma semigroupProduct_int:
  "isSafeInteger (a * b) \<Longrightarrow>
   semigroupProduct (number_of_int a) (number_of_int b) = number_of_int (a * b)"
  using num_mul_int [of a b]
  by (simp add: semigroupProduct_def number_of_int_def isSafeInteger_def)

lemma semigroupSum_assoc_safe:
  assumes "sum_safe a b c"
  shows "semigroupSum (semigroupSum (number_of_int a) (number_of_int b)) (number_of_int c)
         = semigroupSum (number_of_int a) (semigroupSum (number_of_int b) (number_of_int c))"
proof -
  from assms have ab: "isSafeInteger (a + b)" and bc: "isSafeInteger (b + c)"
    and abc: "isSafeInteger (a + b + c)" by (simp_all add: sum_safe_def)
  from abc have abc': "isSafeInteger (a + (b + c))" by (simp add: add.assoc)
  show ?thesis
    by (simp only: semigroupSum_int [OF ab] semigroupSum_int [OF bc] semigroupSum_int [OF abc]
        semigroupSum_int [OF abc'] add.assoc)
qed

lemma semigroupProduct_assoc_safe:
  assumes "product_safe a b c"
  shows "semigroupProduct (semigroupProduct (number_of_int a) (number_of_int b)) (number_of_int c)
         = semigroupProduct (number_of_int a)
             (semigroupProduct (number_of_int b) (number_of_int c))"
proof -
  from assms have ab: "isSafeInteger (a * b)" and bc: "isSafeInteger (b * c)"
    and abc: "isSafeInteger (a * b * c)" by (simp_all add: product_safe_def)
  from abc have abc': "isSafeInteger (a * (b * c))" by (simp add: mult.assoc)
  show ?thesis
    by (simp only: semigroupProduct_int [OF ab] semigroupProduct_int [OF bc]
        semigroupProduct_int [OF abc] semigroupProduct_int [OF abc'] mult.assoc)
qed

text \<open>
  Sums beyond \<open>2\<^sup>5\<^sup>3\<close> are rounded: \<open>2\<^sup>5\<^sup>3 + 1\<close> lies halfway between two doubles and
  goes to the even one, \<open>2\<^sup>5\<^sup>3\<close>, while \<open>2\<^sup>5\<^sup>3 + 2\<close> is a double.
\<close>

lemma round_2_53_plus_1: "round_to_double (2 ^ 53 + 1) = Finite (2 ^ 53)"
proof -
  have "floor_log2 \<bar>2 ^ 53 + 1\<bar> = 53" by (rule floor_log2_unique) simp_all
  then show ?thesis
    by (simp add: round_to_double_def round_half_even_def Let_def)
qed

lemma round_2_53_plus_2: "round_to_double (2 ^ 53 + 2) = Finite (2 ^ 53 + 2)"
proof -
  have "floor_log2 \<bar>2 ^ 53 + 2\<bar> = 53" by (rule floor_log2_unique) simp_all
  then show ?thesis
    by (simp add: round_to_double_def round_half_even_def Let_def)
qed

lemma semigroupSum_two_groupings:
  "semigroupSum (semigroupSum (Finite (2 ^ 53)) (Finite 1)) (Finite 1) = Finite (2 ^ 53)"
  "semigroupSum (Finite (2 ^ 53)) (semigroupSum (Finite 1) (Finite 1)) = Finite (2 ^ 53 + 2)"
proof -
  have two: "round_to_double 2 = Finite 2" using round_to_double_of_int [of 2] by simp
  show "semigroupSum (semigroupSum (Finite (2 ^ 53)) (Finite 1)) (Finite 1) = Finite (2 ^ 53)"
    using round_2_53_plus_1 by (simp add: semigroupSum_def)
  show "semigroupSum (Finite (2 ^ 53)) (semigroupSum (Finite 1) (Finite 1)) = Finite (2 ^ 53 + 2)"
    using round_2_53_plus_2 two by (simp add: semigroupSum_def)
qed

text \<open>
  The same for products: \<open>(2\<^sup>2\<^sup>7 + 1) * (2\<^sup>2\<^sup>6 + 1)\<close> needs 54 bits and is rounded
  before it is multiplied by \<open>3\<close>; in the other grouping only the last product is
  rounded.
\<close>

lemma semigroupProduct_two_groupings:
  "semigroupProduct (semigroupProduct (Finite 134217729) (Finite 67108865)) (Finite 3)
   = Finite 27021598368202752"
  "semigroupProduct (Finite 134217729) (semigroupProduct (Finite 67108865) (Finite 3))
   = Finite 27021598368202756"
proof -
  have g1: "round_to_double (134217729 * 67108865) = Finite 9007199456067584"
  proof -
    have "floor_log2 \<bar>134217729 * 67108865\<bar> = 53" by (rule floor_log2_unique) simp_all
    then show ?thesis
      by (simp add: round_to_double_def round_half_even_def Let_def)
  qed
  have g2: "round_to_double (9007199456067584 * 3) = Finite 27021598368202752"
  proof -
    have "floor_log2 \<bar>9007199456067584 * 3\<bar> = 54" by (rule floor_log2_unique) simp_all
    then show ?thesis
      by (simp add: round_to_double_def round_half_even_def Let_def)
  qed
  have g3: "round_to_double (67108865 * 3) = Finite 201326595"
    using round_to_double_of_int [of 201326595] by simp
  have g4: "round_to_double (134217729 * 201326595) = Finite 27021598368202756"
  proof -
    have "floor_log2 \<bar>134217729 * 201326595\<bar> = 54" by (rule floor_log2_unique) simp_all
    then show ?thesis
      by (simp add: round_to_double_def round_half_even_def Let_def)
  qed
  show "semigroupProduct (semigroupProduct (Finite 134217729) (Finite 67108865)) (Finite 3)
        = Finite 27021598368202752"
    using g1 g2 by (simp add: semigroupProduct_def)
  show "semigroupProduct (Finite 134217729) (semigroupProduct (Finite 67108865) (Finite 3))
        = Finite 27021598368202756"
    using g3 g4 by (simp add: semigroupProduct_def)
qed

text \<open>
  Claim C8, as stated: \<open>concat\<close> of \<open>semigroupSum\<close>, of \<open>semigroupProduct\<close> and of
  \<open>semigroupPoint\<close> is associative on all numbers and points. It is not:
  \<open>(2\<^sup>5\<^sup>3 + 1) + 1\<close> is \<open>2\<^sup>5\<^sup>3\<close> and \<open>2\<^sup>5\<^sup>3 + (1 + 1)\<close> is \<open>2\<^sup>5\<^sup>3 + 2\<close>;
  \<open>(134217729 * 67108865) * 3\<close> and \<open>134217729 * (67108865 * 3)\<close> differ by \<open>4\<close>; and
  the points with these first coordinates differ as the sums do.
\<close>

theorem semigroup_concat_associative_counterexample:
  "semigroupSum (semigroupSum (Finite (2 ^ 53)) (Finite 1)) (Finite 1)
     \<noteq> semigroupSum (Finite (2 ^ 53)) (semigroupSum (Finite 1) (Finite 1))
   \<and> semigroupProduct (semigroupProduct (Finite 134217729) (Finite 67108865)) (Finite 3)
     \<noteq> semigroupProduct (Finite 134217729) (semigroupProduct (Finite 67108865) (Finite 3))
   \<and> semigroupPoint
       (semigroupPoint \<lparr>point_x = Finite (2 ^ 53), point_y = Finite 0\<rparr>
          \<lparr>point_x = Finite 1, point_y = Finite 0\<rparr>)
       \<lparr>point_x = Finite 1, point_y = Finite 0\<rparr>
     \<noteq> semigroupPoint \<lparr>point_x = Finite (2 ^ 53), point_y = Finite 0\<rparr>
         (semigroupPoint \<lparr>point_x = Finite 1, point_y = Finite 0\<rparr>
            \<lparr>point_x = Finite 1, point_y = Finite 0\<rparr>)"
  using semigroupSum_two_groupings semigroupProduct_two_groupings
  by (simp add: semigroupPoint_def)

text \<open>
  Claim C8, amended: on safe integers whose partial results are safe integers too,
  where no addition and no multiplication is rounded, \<open>concat\<close> of \<open>semigroupSum\<close>
  and of \<open>semigroupProduct\<close> is associative, and so is \<open>concat\<close> of \<open>semigroupPoint\<close>
  on points with such coordinates.
\<close>

theorem semigroup_concat_associative_safe:
  "(sum_safe a b c \<longrightarrow>
      semigroupSum (semigroupSum (number_of_int a) (number_of_int b)) (number_of_int c)
      = semigroupSum (number_of_int a) (semigroupSum (number_of_int b) (number_of_int c)))
   \<and> (product_safe a b c \<longrightarrow>
      semigroupProduct (semigroupProduct (number_of_int a) (number_of_int b)) (number_of_int c)
      = semigroupProduct (number_of_int a)
          (semigroupProduct (number_of_int b) (number_of_int c)))
   \<and> (sum_safe a b c \<and> sum_safe a' b' c' \<longrightarrow>
      semigroupPoint (semigroupPoint (point_of_int a a') (point_of_int b b')) (point_of_int c c')
      = semigroupPoint (point_of_int a a')
          (semigroupPoint (point_of_int b b') (point_of_int c c')))"
  by (simp add: semigroupSum_assoc_safe semigroupProduct_assoc_safe semigroupPoint_def
      point_of_int_def)

theorem semigroup_concat_associative_safe_witness:
  "sum_safe 1 2 3 \<and> product_safe 1 2 3 \<and> sum_safe 4 5 6
   \<and> semigroupSum (semigroupSum (number_of_int 1) (number_of_int 2)) (number_of_int 3)
      = semigroupSum (number_of_int 1) (semigroupSum (number_of_int 2) (number_of_int 3))
   \<and> semigroupProduct (semigroupProduct (number_of_int 1) (number_of_int 2)) (number_of_int 3)
      = semigroupProduct (number_of_int 1)
          (semigroupProduct (number_of_int 2) (number_of_int 3))
   \<and> semigroupPoint (semigroupPoint (point_of_int 1 4) (point_of_int 2 5)) (point_of_int 3 6)
      = semigroupPoint (point_of_int 1 4) (semigroupPoint (point_of_int 2 5) (point_of_int 3 6))"
proof -
  have s: "sum_safe 1 2 3 \<and> product_safe 1 2 3 \<and> sum_safe 4 5 6"
    by (simp add: sum_safe_def product_safe_def isSafeInteger_def)
  with semigroup_concat_associative_safe [of 1 2 3 4 5 6] show ?thesis by blast
qed

section \<open>Properties of eq.ts\<close>

text \<open>
  Claim C10, as stated: \<open>eqUser.equals(u1, u2)\<close> is true exactly when the two ids are
  equal. It fails on NaN, whichever equality of ids is meant. One user whose id is NaN
  equals itself for \<open>eqUser\<close>, since \<open>fromEquals\<close> compares the references first,
  although its id is not \<open>===\<close> to itself; and two distinct users with the id NaN are
  not equal for \<open>eqUser\<close>, although their ids are the same value.
\<close>

theorem eqUser_counterexample:
  "eqUser (Object 0 \<lparr>id' = NaN, name = [0x52]\<rparr>) (Object 0 \<lparr>id' = NaN, name = [0x52]\<rparr>)
   \<and> \<not> eqNumber (id' \<lparr>id' = NaN, name = [0x52]\<rparr>) (id' \<lparr>id' = NaN, name = [0x52]\<rparr>)
   \<and> \<not> eqUser (Object 0 \<lparr>id' = NaN, name = [0x52]\<rparr>) (Object 1 \<lparr>id' = NaN, name = [0x52]\<rparr>)
   \<and> id' \<lparr>id' = NaN, name = [0x52]\<rparr> = id' \<lparr>id' = NaN, name = [0x52]\<rparr>"
  by (simp add: eqUser_def contramap_def fromEquals_def strict_equal_object_def eqNumber_def
      strict_equal_number_def)

text \<open>
  Claim C10, amended: for two users of which the first has an id other than NaN,
  \<open>eqUser.equals(u1, u2)\<close> is true exactly when the ids are equal (as values and for
  \<open>===\<close>, which agree here); and for all users the verdict stays the same when the
  names are replaced by any other names. Two objects with the same reference are the
  same object, so they have the same properties.
\<close>

theorem eqUser_depends_on_id:
  "((reference u1 = reference u2 \<longrightarrow> properties u1 = properties u2)
      \<and> id' (properties u1) \<noteq> NaN
    \<longrightarrow> (eqUser u1 u2 \<longleftrightarrow> id' (properties u1) = id' (properties u2))
      \<and> (eqUser u1 u2 \<longleftrightarrow> eqNumber (id' (properties u1)) (id' (properties u2))))
   \<and> eqUser (Object (reference u1) ((properties u1)\<lparr>name := n1\<rparr>))
            (Object (reference u2) ((properties u2)\<lparr>name := n2\<rparr>))
       = eqUser u1 u2"
  by (auto simp add: eqUser_def contramap_def fromEquals_def strict_equal_object_def eqNumber_def
      strict_equal_number_def)

text \<open>
  The call of eq.ts, \<open>{ id: 123, name: 'Ryan' }\<close> against \<open>{ id: 234, name: 'Ryan' }\<close>,
  is false; with the id \<open>123\<close> and another name on the right it is true.
\<close>

theorem eqUser_depends_on_id_witness:
  "reference (Object 0 \<lparr>id' = Finite 123, name = [0x52, 0x79, 0x61, 0x6E]\<rparr>)
     \<noteq> reference (Object 1 \<lparr>id' = Finite 234, name = [0x52, 0x79, 0x61, 0x6E]\<rparr>)
   \<and> id' (properties (Object 0 \<lparr>id' = Finite 123, name = [0x52, 0x79, 0x61, 0x6E]\<rparr>)) \<noteq> NaN
   \<and> \<not> eqUser (Object 0 \<lparr>id' = Finite 123, name = [0x52, 0x79, 0x61, 0x6E]\<rparr>)
               (Object 1 \<lparr>id' = Finite 234, name = [0x52, 0x79, 0x61, 0x6E]\<rparr>)
   \<and> eqUser (Object 0 \<lparr>id' = Finite 123, name = [0x52, 0x79, 0x61, 0x6E]\<rparr>)
             (Object 1 \<lparr>id' = Finite 123, name = [0x41]\<rparr>)"
  using eqUser_depends_on_id
    [of "Object 0 \<lparr>id' = Finite 123, name = [0x52, 0x79, 0x61, 0x6E]\<rparr>"
        "Object 1 \<lparr>id' = Finite 234, name = [0x52, 0x79, 0x61, 0x6E]\<rparr>"]
    eqUser_depends_on_id
    [of "Object 0 \<lparr>id' = Finite 123, name = [0x52, 0x79, 0x61, 0x6E]\<rparr>"
        "Object 1 \<lparr>id' = Finite 123, name = [0x41]\<rparr>"]
  by simp

end
